theory Spec2Isabelle
  imports
    Complex_Main
    "HOL-Library.AList"
    "HOL-Library.Char_ord"
    "HOL-Library.List_Lexorder"
    "HOL-Library.Product_Lexorder"
begin

section \<open>Exceptions\<close>

text \<open>
  The exceptions that the functions of \<^verbatim>\<open>update_sponsors.py\<close> and the library functions
  they call can raise. A function that can raise returns \<open>exn + 'a\<close>, with \<open>Inl\<close> the
  exception. \<open>ReError\<close> is \<^verbatim>\<open>re.error\<close> (its message is not modelled), \<open>OverflowError\<close>
  Python's built-in one,
  \<open>Overflow\<close> and \<open>DivisionByZero\<close> the signals of the \<^verbatim>\<open>decimal\<close> module that the default
  context traps beside \<open>InvalidOperation\<close>.
\<close>

datatype exn =
    InvalidOperation
  | DivisionByZero
  | Overflow
  | ValueError
  | OverflowError
  | AttributeError
  | IndexError
  | RuntimeError string
  | ReError

section \<open>Strings\<close>

text \<open>
  A Python \<^verbatim>\<open>str\<close> is modelled as a HOL \<open>string\<close>: the list of its code points, which
  the model takes below 256. \<^verbatim>\<open>str.strip()\<close> removes the characters for which
  \<^verbatim>\<open>str.isspace\<close> holds; among the code points below 256 these are 9 to 13, 28 to 32,
  133 and 160.
\<close>

definition backslash :: char where
  "backslash = CHR 0x5C"

definition isspace :: "char \<Rightarrow> bool" where
  "isspace c = ((of_char c :: nat) \<in> {9, 10, 11, 12, 13, 28, 29, 30, 31, 32, 133, 160})"

definition strip :: "string \<Rightarrow> string" where
  "strip text = rev (dropWhile isspace (rev (dropWhile isspace text)))"

definition startswith :: "string \<Rightarrow> string \<Rightarrow> bool" where
  "startswith text pre = (take (length pre) text = pre)"

text \<open>
  The case mappings \<^verbatim>\<open>str.lower\<close>, \<^verbatim>\<open>str.upper\<close> and \<^verbatim>\<open>str.casefold\<close> are given by the
  tables of the Unicode standard, and the model takes them as parameters (\<open>lower\<close>,
  \<open>upper\<close>, \<open>casefold\<close>) of the functions that use them. On ASCII text they are the
  functions below, which the worked examples use.
\<close>

definition ascii_lower_char :: "char \<Rightarrow> char" where
  "ascii_lower_char c = (if CHR ''A'' \<le> c \<and> c \<le> CHR ''Z'' then char_of (of_char c + (32::nat)) else c)"

definition ascii_upper_char :: "char \<Rightarrow> char" where
  "ascii_upper_char c = (if CHR ''a'' \<le> c \<and> c \<le> CHR ''z'' then char_of (of_char c - (32::nat)) else c)"

definition ascii_lower :: "string \<Rightarrow> string" where
  "ascii_lower text = map ascii_lower_char text"

definition ascii_upper :: "string \<Rightarrow> string" where
  "ascii_upper text = map ascii_upper_char text"

definition ascii_casefold :: "string \<Rightarrow> string" where
  "ascii_casefold text = map ascii_lower_char text"

definition isdigit :: "char \<Rightarrow> bool" where
  "isdigit c = (CHR ''0'' \<le> c \<and> c \<le> CHR ''9'')"

definition digit_val :: "char \<Rightarrow> nat" where
  "digit_val c = of_char c - 48"

definition digits_val :: "string \<Rightarrow> nat" where
  "digits_val ds = foldl (\<lambda>n c. 10 * n + digit_val c) 0 ds"

text \<open>\<^verbatim>\<open>text.replace(c, new)\<close> for a one-character \<open>c\<close>: every occurrence is replaced.\<close>

definition replace_char :: "char \<Rightarrow> string \<Rightarrow> string \<Rightarrow> string" where
  "replace_char c new text = concat (map (\<lambda>x. if x = c then new else [x]) text)"

text \<open>
  \<^verbatim>\<open>html.escape(s, quote)\<close>: the characters \<^verbatim>\<open>&\<close>, \<^verbatim>\<open><\<close> and \<^verbatim>\<open>>\<close> become entities,
  and with \<open>quote\<close> the two quotation marks as well. Every other character is kept.
\<close>

definition escape_char :: "bool \<Rightarrow> char \<Rightarrow> string" where
  "escape_char quote c =
     (if c = CHR ''&'' then ''&amp;''
      else if c = CHR ''<'' then ''&lt;''
      else if c = CHR ''>'' then ''&gt;''
      else if quote \<and> c = CHR 0x22 then ''&quot;''
      else if quote \<and> c = CHR 0x27 then ''&#x27;''
      else [c])"

definition html_escape :: "string \<Rightarrow> bool \<Rightarrow> string" where
  "html_escape s quote = concat (map (escape_char quote) s)"

section \<open>Python's \<^verbatim>\<open>decimal.Decimal\<close>\<close>

text \<open>
  A \<^verbatim>\<open>Decimal\<close> is a sign, a coefficient and an exponent, or one of the special values:
  an infinity, a quiet NaN or a signalling NaN (both with a sign and a payload).
  The sign is \<open>True\<close> for a negative number. The arithmetic below is that of the
  module's default context, which the script never changes: precision 28, rounding
  ROUND_HALF_EVEN, Emin -999999, Emax 999999, no clamping, traps on InvalidOperation,
  DivisionByZero and Overflow.
\<close>

datatype decimal =
    DFinite bool nat int
  | DInfinity bool
  | DNaN bool nat
  | DSNaN bool nat

fun is_nan :: "decimal \<Rightarrow> bool" where
  "is_nan (DNaN _ _) = True"
| "is_nan (DSNaN _ _) = True"
| "is_nan _ = False"

text \<open>
  \<^verbatim>\<open>Decimal._cmp\<close> on two operands that are not NaN: -1, 0 or 1. Infinities compare by
  sign; two finite numbers are compared on their signed coefficients, brought to the
  smaller of the two exponents (the padding with zeros of the Python code).
\<close>

definition signed_coeff :: "bool \<Rightarrow> nat \<Rightarrow> int" where
  "signed_coeff s c = (if s then - int c else int c)"

definition sgn_int :: "int \<Rightarrow> int" where
  "sgn_int d = (if d < 0 then - 1 else if d = 0 then 0 else 1)"

fun isinfinity :: "decimal \<Rightarrow> int" where
  "isinfinity (DInfinity s) = (if s then - 1 else 1)"
| "isinfinity _ = 0"

fun dec_cmp :: "decimal \<Rightarrow> decimal \<Rightarrow> int" where
  "dec_cmp (DFinite s1 c1 e1) (DFinite s2 c2 e2) =
     sgn_int (signed_coeff s1 c1 * 10 ^ nat (e1 - min e1 e2)
            - signed_coeff s2 c2 * 10 ^ nat (e2 - min e1 e2))"
| "dec_cmp a b = sgn_int (isinfinity a - isinfinity b)"

text \<open>
  The rich comparisons \<^verbatim>\<open>>=\<close>, \<^verbatim>\<open><=\<close> and \<^verbatim>\<open><\<close> of \<^verbatim>\<open>Decimal\<close>: with a NaN on
  either side they signal InvalidOperation, which the default context raises.
\<close>

definition decimal_ge :: "decimal \<Rightarrow> decimal \<Rightarrow> exn + bool" where
  "decimal_ge a b = (if is_nan a \<or> is_nan b then Inl InvalidOperation else Inr (0 \<le> dec_cmp a b))"

definition decimal_le :: "decimal \<Rightarrow> decimal \<Rightarrow> exn + bool" where
  "decimal_le a b = (if is_nan a \<or> is_nan b then Inl InvalidOperation else Inr (dec_cmp a b \<le> 0))"

definition decimal_lt :: "decimal \<Rightarrow> decimal \<Rightarrow> exn + bool" where
  "decimal_lt a b = (if is_nan a \<or> is_nan b then Inl InvalidOperation else Inr (dec_cmp a b < 0))"

subsection \<open>The numbers that decimals denote\<close>

text \<open>
  The rational number of a finite decimal, and the order of the extended number line on
  the decimals that are not NaN. The claims about amounts and minimums are stated against
  this order, not against \<open>dec_cmp\<close>.
\<close>

definition rat_of_finite :: "bool \<Rightarrow> nat \<Rightarrow> int \<Rightarrow> rat" where
  "rat_of_finite s c e = of_int (signed_coeff s c) * 10 powi e"

fun num_le :: "decimal \<Rightarrow> decimal \<Rightarrow> bool" where
  "num_le (DFinite s1 c1 e1) (DFinite s2 c2 e2) = (rat_of_finite s1 c1 e1 \<le> rat_of_finite s2 c2 e2)"
| "num_le (DInfinity s) (DFinite _ _ _) = s"
| "num_le (DFinite _ _ _) (DInfinity s) = (\<not> s)"
| "num_le (DInfinity s1) (DInfinity s2) = (s1 \<or> \<not> s2)"
| "num_le _ _ = False"

definition num_less :: "decimal \<Rightarrow> decimal \<Rightarrow> bool" where
  "num_less a b = (num_le a b \<and> \<not> num_le b a)"

subsection \<open>Arithmetic in the default context\<close>

definition prec :: nat where
  "prec = 28"

definition Emax :: int where
  "Emax = 999999"

definition Emin :: int where
  "Emin = - 999999"

definition Etiny :: int where
  "Etiny = Emin - int prec + 1"

definition Etop :: int where
  "Etop = Emax - int prec + 1"

text \<open>The number of digits of a coefficient, \<^verbatim>\<open>len(self._int)\<close>.\<close>

fun ndigits :: "nat \<Rightarrow> nat" where
  "ndigits n = (if n < 10 then 1 else Suc (ndigits (n div 10)))"

text \<open>
  Rounding a coefficient by dropping its last \<open>k\<close> digits, under ROUND_HALF_UP (away
  from zero on a tie) and ROUND_HALF_EVEN (to the even neighbour on a tie).
\<close>

definition round_half_up :: "nat \<Rightarrow> nat \<Rightarrow> nat" where
  "round_half_up c k =
     (if 10 ^ k \<le> 2 * (c mod 10 ^ k) then c div 10 ^ k + 1 else c div 10 ^ k)"

definition round_half_even :: "nat \<Rightarrow> nat \<Rightarrow> nat" where
  "round_half_even c k =
     (if 10 ^ k < 2 * (c mod 10 ^ k) \<or> (10 ^ k = 2 * (c mod 10 ^ k) \<and> odd (c div 10 ^ k))
      then c div 10 ^ k + 1 else c div 10 ^ k)"

text \<open>
  \<^verbatim>\<open>Decimal._fix\<close>: the result of an operation is rounded to the precision of the
  context and its exponent brought into range. A result above Emax signals Overflow,
  which is raised; Underflow, Inexact, Rounded, Subnormal and Clamped are not trapped.
  A NaN keeps the last \<open>prec\<close> digits of its payload.
\<close>

fun dec_fix :: "decimal \<Rightarrow> exn + decimal" where
  "dec_fix (DFinite s c e) =
     (if c = 0 then Inr (DFinite s 0 (min (max e Etiny) Emax))
      else if Etop < int (ndigits c) + e - int prec then Inl Overflow
      else
        (let exp_min = max (int (ndigits c) + e - int prec) Etiny in
         if e < exp_min
         then (let coeff = round_half_even c (nat (exp_min - e)) in
               if prec < ndigits coeff
               then (if Etop < exp_min + 1 then Inl Overflow
                     else Inr (DFinite s (coeff div 10) (exp_min + 1)))
               else Inr (DFinite s coeff exp_min))
         else Inr (DFinite s c e)))"
| "dec_fix (DInfinity s) = Inr (DInfinity s)"
| "dec_fix (DNaN s p) = Inr (DNaN s (p mod 10 ^ prec))"
| "dec_fix (DSNaN s p) = Inr (DSNaN s (p mod 10 ^ prec))"

text \<open>
  \<^verbatim>\<open>Decimal._check_nans\<close>: a signalling NaN among the operands raises InvalidOperation,
  a quiet NaN is the result of the operation.
\<close>

fun check_nans :: "decimal \<Rightarrow> decimal \<Rightarrow> (exn + decimal) option" where
  "check_nans (DSNaN s p) b = Some (Inl InvalidOperation)"
| "check_nans a (DSNaN s p) = Some (Inl InvalidOperation)"
| "check_nans (DNaN s p) b = Some (dec_fix (DNaN s p))"
| "check_nans a (DNaN s p) = Some (dec_fix (DNaN s p))"
| "check_nans a b = None"

text \<open>\<^verbatim>\<open>Decimal.__mul__\<close>.\<close>

fun decimal_mul :: "decimal \<Rightarrow> decimal \<Rightarrow> exn + decimal" where
  "decimal_mul (DFinite s1 c1 e1) (DFinite s2 c2 e2) = dec_fix (DFinite (s1 \<noteq> s2) (c1 * c2) (e1 + e2))"
| "decimal_mul (DInfinity s1) (DFinite s2 c2 e2) =
     (if c2 = 0 then Inl InvalidOperation else Inr (DInfinity (s1 \<noteq> s2)))"
| "decimal_mul (DFinite s1 c1 e1) (DInfinity s2) =
     (if c1 = 0 then Inl InvalidOperation else Inr (DInfinity (s1 \<noteq> s2)))"
| "decimal_mul (DInfinity s1) (DInfinity s2) = Inr (DInfinity (s1 \<noteq> s2))"
| "decimal_mul a b = (case check_nans a b of Some r \<Rightarrow> r | None \<Rightarrow> Inl InvalidOperation)"

text \<open>
  \<^verbatim>\<open>Decimal.__truediv__\<close>. The quotient is computed to one digit more than the precision;
  when the division is not exact a last digit 0 or 5 is made 1 or 6, so that the rounding
  in \<open>dec_fix\<close> sees that something follows; an exact quotient loses its final zeros as far
  as the ideal exponent allows.
\<close>

fun reduce_exact :: "nat \<Rightarrow> nat \<Rightarrow> int \<Rightarrow> nat \<times> int" where
  "reduce_exact 0 coeff e = (coeff, e)"
| "reduce_exact (Suc n) coeff e =
     (if coeff mod 10 = 0 then reduce_exact n (coeff div 10) (e + 1) else (coeff, e))"

fun decimal_truediv :: "decimal \<Rightarrow> decimal \<Rightarrow> exn + decimal" where
  "decimal_truediv (DFinite s1 c1 e1) (DFinite s2 c2 e2) =
     (if c2 = 0 then (if c1 = 0 then Inl InvalidOperation else Inl DivisionByZero)
      else if c1 = 0 then dec_fix (DFinite (s1 \<noteq> s2) 0 (e1 - e2))
      else
        (let shift = int (ndigits c2) - int (ndigits c1) + int prec + 1;
             e = e1 - e2 - shift;
             num = (if 0 \<le> shift then c1 * 10 ^ nat shift else c1);
             den = (if 0 \<le> shift then c2 else c2 * 10 ^ nat (- shift));
             coeff = num div den
         in if num mod den \<noteq> 0
            then dec_fix (DFinite (s1 \<noteq> s2) (if coeff mod 5 = 0 then coeff + 1 else coeff) e)
            else (case reduce_exact (nat (e1 - e2 - e)) coeff e of
                    (coeff', e') \<Rightarrow> dec_fix (DFinite (s1 \<noteq> s2) coeff' e'))))"
| "decimal_truediv (DInfinity s1) (DFinite s2 c2 e2) = Inr (DInfinity (s1 \<noteq> s2))"
| "decimal_truediv (DFinite s1 c1 e1) (DInfinity s2) = Inr (DFinite (s1 \<noteq> s2) 0 Etiny)"
| "decimal_truediv (DInfinity s1) (DInfinity s2) = Inl InvalidOperation"
| "decimal_truediv a b = (case check_nans a b of Some r \<Rightarrow> r | None \<Rightarrow> Inl InvalidOperation)"

text \<open>
  \<^verbatim>\<open>self.quantize(exp, rounding=ROUND_HALF_UP)\<close>: the value of \<open>self\<close> at the exponent of
  \<open>exp\<close>. A result of more than \<open>prec\<close> digits is an InvalidOperation.
\<close>

fun quantize_half_up :: "decimal \<Rightarrow> decimal \<Rightarrow> exn + decimal" where
  "quantize_half_up (DFinite s c e) (DFinite qs qc qe) =
     (if \<not> (Etiny \<le> qe \<and> qe \<le> Emax) then Inl InvalidOperation
      else if c = 0 then dec_fix (DFinite s 0 qe)
      else if Emax < int (ndigits c) + e - 1 then Inl InvalidOperation
      else if int prec < int (ndigits c) + e - 1 - qe + 1 then Inl InvalidOperation
      else
        (let coeff = (if qe \<le> e then c * 10 ^ nat (e - qe) else round_half_up c (nat (qe - e))) in
         if Emax < int (ndigits coeff) + qe - 1 then Inl InvalidOperation
         else if prec < ndigits coeff then Inl InvalidOperation
         else dec_fix (DFinite s coeff qe)))"
| "quantize_half_up (DInfinity s) (DInfinity qs) = Inr (DInfinity s)"
| "quantize_half_up (DInfinity s) (DFinite qs qc qe) = Inl InvalidOperation"
| "quantize_half_up (DFinite s c e) (DInfinity qs) = Inl InvalidOperation"
| "quantize_half_up a b = (case check_nans a b of Some r \<Rightarrow> r | None \<Rightarrow> Inl InvalidOperation)"

subsection \<open>\<^verbatim>\<open>Decimal(text)\<close>\<close>

text \<open>
  The constructor from a string: white space around the text and every underscore are
  dropped, then the text is a sign and a number (digits with at most one point and an
  optional exponent, at least one digit), an infinity (\<^verbatim>\<open>Inf\<close>, \<^verbatim>\<open>Infinity\<close>) or a NaN
  (\<^verbatim>\<open>NaN\<close>, \<^verbatim>\<open>sNaN\<close>, with optional payload digits), letters in either case. The value is
  exact: the coefficient is the number written by the digits, the exponent is the written
  one less the number of digits after the point. Any other text signals
  InvalidOperation. (The C implementation also refuses exponents of more than eighteen
  digits; the model, like the module's pure Python version, has no such bound.)
\<close>

definition remove_underscores :: "string \<Rightarrow> string" where
  "remove_underscores text = filter (\<lambda>c. c \<noteq> CHR ''_'') text"

definition split_sign :: "string \<Rightarrow> bool \<times> string" where
  "split_sign text =
     (case text of
        [] \<Rightarrow> (False, [])
      | c # cs \<Rightarrow> if c = CHR ''-'' then (True, cs) else if c = CHR ''+'' then (False, cs) else (False, text))"

definition parse_exponent :: "string \<Rightarrow> int option" where
  "parse_exponent text =
     (case split_sign text of (s, ds) \<Rightarrow>
        if ds \<noteq> [] \<and> list_all isdigit ds
        then Some (if s then - int (digits_val ds) else int (digits_val ds))
        else None)"

definition parse_number :: "string \<Rightarrow> (nat \<times> int) option" where
  "parse_number body =
     (let intpart = takeWhile isdigit body;
          r1 = dropWhile isdigit body;
          has_point = (r1 \<noteq> [] \<and> hd r1 = CHR ''.'');
          fracpart = (if has_point then takeWhile isdigit (tl r1) else []);
          r2 = (if has_point then dropWhile isdigit (tl r1) else r1)
      in if intpart = [] \<and> fracpart = [] then None
         else if r2 = [] then Some (digits_val (intpart @ fracpart), - int (length fracpart))
         else if hd r2 = CHR ''e'' \<or> hd r2 = CHR ''E''
         then map_option (\<lambda>x. (digits_val (intpart @ fracpart), x - int (length fracpart)))
                (parse_exponent (tl r2))
         else None)"

definition parse_special :: "bool \<Rightarrow> string \<Rightarrow> decimal option" where
  "parse_special s body =
     (let low = ascii_lower body in
      if low = ''inf'' \<or> low = ''infinity'' then Some (DInfinity s)
      else if startswith low ''nan'' \<and> list_all isdigit (drop 3 low)
      then Some (DNaN s (digits_val (drop 3 low)))
      else if startswith low ''snan'' \<and> list_all isdigit (drop 4 low)
      then Some (DSNaN s (digits_val (drop 4 low)))
      else None)"

definition Decimal :: "string \<Rightarrow> exn + decimal" where
  "Decimal v =
     (case split_sign (remove_underscores (strip v)) of (s, body) \<Rightarrow>
        (case parse_number body of
           Some (c, e) \<Rightarrow> Inr (DFinite s c e)
         | None \<Rightarrow>
           (case parse_special s body of
              Some d \<Rightarrow> Inr d
            | None \<Rightarrow> Inl InvalidOperation)))"

subsection \<open>Values read from JSON and CSV\<close>

text \<open>
  The Python objects that \<^verbatim>\<open>json.loads\<close> builds, which are also the values of a CSV row
  (\<^verbatim>\<open>str\<close> or \<^verbatim>\<open>None\<close>). A \<^verbatim>\<open>float\<close> is carried by its \<^verbatim>\<open>repr\<close>, the text that \<^verbatim>\<open>str()\<close>
  returns for it; a \<^verbatim>\<open>dict\<close> is its list of items, with distinct keys.
\<close>

datatype json =
    JNull
  | JBool bool
  | JInt int
  | JFloat string
  | JStr string
  | JList "json list"
  | JDict "(string \<times> json) list"

fun truthy :: "json \<Rightarrow> bool" where
  "truthy JNull = False"
| "truthy (JBool b) = b"
| "truthy (JInt i) = (i \<noteq> 0)"
| "truthy (JFloat r) = (r \<noteq> ''0.0'' \<and> r \<noteq> ''-0.0'')"
| "truthy (JStr text) = (text \<noteq> [])"
| "truthy (JList xs) = (xs \<noteq> [])"
| "truthy (JDict items) = (items \<noteq> [])"

definition dict_get :: "(string \<times> json) list \<Rightarrow> string \<Rightarrow> json" where
  "dict_get items k = (case map_of items k of None \<Rightarrow> JNull | Some v \<Rightarrow> v)"

fun str_of_nat :: "nat \<Rightarrow> string" where
  "str_of_nat n =
     (if n < 10 then [char_of (48 + n)] else str_of_nat (n div 10) @ [char_of (48 + n mod 10)])"

definition str_of_int :: "int \<Rightarrow> string" where
  "str_of_int i = (if i < 0 then CHR ''-'' # str_of_nat (nat (- i)) else str_of_nat (nat i))"

text \<open>\<^verbatim>\<open>str(value)\<close> for the values that are not containers.\<close>

fun py_str :: "json \<Rightarrow> string" where
  "py_str JNull = ''None''"
| "py_str (JBool b) = (if b then ''True'' else ''False'')"
| "py_str (JInt i) = str_of_int i"
| "py_str (JFloat r) = r"
| "py_str (JStr text) = text"
| "py_str _ = undefined"

subsection \<open>\<^verbatim>\<open>parse_decimal\<close>\<close>

text \<open>
  For a list or a dict, \<^verbatim>\<open>str(value)\<close> starts with a bracket or a brace, which
  \<^verbatim>\<open>Decimal\<close> refuses with InvalidOperation: the function returns \<^verbatim>\<open>None\<close>. The handler
  catches InvalidOperation only.
\<close>

definition parse_decimal :: "json \<Rightarrow> exn + decimal option" where
  "parse_decimal v =
     (case v of
        JNull \<Rightarrow> Inr None
      | JList _ \<Rightarrow> Inr None
      | JDict _ \<Rightarrow> Inr None
      | _ \<Rightarrow>
        (let text = strip (py_str v) in
         if text = [] then Inr None
         else (case Decimal text of
                 Inr d \<Rightarrow> Inr (Some d)
               | Inl InvalidOperation \<Rightarrow> Inr None
               | Inl e \<Rightarrow> Inl e)))"

section \<open>Thresholds and tiers\<close>

record Thresholds =
  github_regular_monthly_minimum :: decimal
  github_highlighted_monthly_minimum :: decimal
  liberapay_regular_weekly_minimum :: decimal
  liberapay_highlighted_weekly_minimum :: decimal

text \<open>
  \<^verbatim>\<open>build_thresholds\<close> takes the four parsed arguments. Each \<^verbatim>\<open>value < 0\<close> is a Decimal
  comparison against the integer 0, that is against \<^verbatim>\<open>Decimal(0)\<close>.
\<close>

definition dec_zero :: decimal where
  "dec_zero = DFinite False 0 0"

fun check_non_negative :: "decimal list \<Rightarrow> exn + unit" where
  "check_non_negative [] = Inr ()"
| "check_non_negative (v # vs) =
     (case decimal_lt v dec_zero of
        Inl e \<Rightarrow> Inl e
      | Inr True \<Rightarrow> Inl (RuntimeError ''Threshold values must be non-negative.'')
      | Inr False \<Rightarrow> check_non_negative vs)"

definition build_thresholds :: "Thresholds \<Rightarrow> exn + Thresholds" where
  "build_thresholds thresholds =
     (case check_non_negative
             [github_regular_monthly_minimum thresholds,
              github_highlighted_monthly_minimum thresholds,
              liberapay_regular_weekly_minimum thresholds,
              liberapay_highlighted_weekly_minimum thresholds] of
        Inl e \<Rightarrow> Inl e
      | Inr _ \<Rightarrow>
        (case decimal_lt (github_highlighted_monthly_minimum thresholds)
                         (github_regular_monthly_minimum thresholds) of
           Inl e \<Rightarrow> Inl e
         | Inr True \<Rightarrow> Inl (RuntimeError
             ''GitHub highlighted minimum must be greater than or equal to the GitHub regular minimum.'')
         | Inr False \<Rightarrow>
           (case decimal_lt (liberapay_highlighted_weekly_minimum thresholds)
                            (liberapay_regular_weekly_minimum thresholds) of
              Inl e \<Rightarrow> Inl e
            | Inr True \<Rightarrow> Inl (RuntimeError
                ''Liberapay highlighted minimum must be greater than or equal to the Liberapay regular minimum.'')
            | Inr False \<Rightarrow> Inr thresholds)))"

text \<open>
  \<^verbatim>\<open>monthly_tier\<close>: the chained comparison \<^verbatim>\<open>regular_minimum <= monthly_amount < highlighted_minimum\<close>
  evaluates its second half only when the first holds.
\<close>

definition monthly_tier :: "decimal \<Rightarrow> decimal \<Rightarrow> decimal \<Rightarrow> exn + string option" where
  "monthly_tier monthly_amount regular_minimum highlighted_minimum =
     (case decimal_ge monthly_amount highlighted_minimum of
        Inl e \<Rightarrow> Inl e
      | Inr True \<Rightarrow> Inr (Some ''highlighted'')
      | Inr False \<Rightarrow>
        (case decimal_le regular_minimum monthly_amount of
           Inl e \<Rightarrow> Inl e
         | Inr False \<Rightarrow> Inr None
         | Inr True \<Rightarrow>
           (case decimal_lt monthly_amount highlighted_minimum of
              Inl e \<Rightarrow> Inl e
            | Inr True \<Rightarrow> Inr (Some ''regular'')
            | Inr False \<Rightarrow> Inr None)))"

definition liberapay_tier :: "decimal \<Rightarrow> decimal \<Rightarrow> Thresholds \<Rightarrow> exn + string option" where
  "liberapay_tier weekly_amount annual_amount thresholds =
     (case decimal_ge weekly_amount (liberapay_highlighted_weekly_minimum thresholds) of
        Inl e \<Rightarrow> Inl e
      | Inr True \<Rightarrow> Inr (Some ''highlighted'')
      | Inr False \<Rightarrow>
        (case decimal_ge weekly_amount (liberapay_regular_weekly_minimum thresholds) of
           Inl e \<Rightarrow> Inl e
         | Inr True \<Rightarrow> Inr (Some ''regular'')
         | Inr False \<Rightarrow> Inr None))"

text \<open>The order of the tiers: excluded below regular below highlighted.\<close>

definition tier_rank :: "string option \<Rightarrow> nat" where
  "tier_rank t = (if t = Some ''highlighted'' then 2 else if t = Some ''regular'' then 1 else 0)"

section \<open>Regular expression substitution, as \<^verbatim>\<open>replace_marker\<close> uses it\<close>

text \<open>
  The pattern of \<^verbatim>\<open>replace_marker\<close> is \<^verbatim>\<open>S.*?S\<close> under \<^verbatim>\<open>re.DOTALL\<close>, where \<open>S\<close> is the
  sentinel \<^verbatim>\<open><!-- marker -->\<close> with the marker escaped, so \<open>S\<close> matches itself and nothing
  else, and \<^verbatim>\<open>.\<close> matches every character. The leftmost match starts at the first
  position where the text starts with \<open>S\<close> and a further \<open>S\<close> follows after it; the lazy
  \<^verbatim>\<open>.*?\<close> stops at the first such \<open>S\<close>. \<open>search_region\<close> returns the start and the end
  of the match.
\<close>

definition sentinel :: "string \<Rightarrow> string" where
  "sentinel marker = ''<!-- '' @ marker @ '' -->''"

fun find_str :: "string \<Rightarrow> string \<Rightarrow> nat option" where
  "find_str pat [] = (if pat = [] then Some 0 else None)"
| "find_str pat (c # cs) =
     (if startswith (c # cs) pat then Some 0 else map_option Suc (find_str pat cs))"

definition match_at :: "string \<Rightarrow> string \<Rightarrow> nat option" where
  "match_at S text =
     (if startswith text S
      then map_option (\<lambda>k. length S + k + length S) (find_str S (drop (length S) text))
      else None)"

fun search_region :: "string \<Rightarrow> string \<Rightarrow> (nat \<times> nat) option" where
  "search_region S [] = map_option (\<lambda>e. (0, e)) (match_at S [])"
| "search_region S (c # cs) =
     (case match_at S (c # cs) of
        Some e \<Rightarrow> Some (0, e)
      | None \<Rightarrow> map_option (\<lambda>(i, j). (Suc i, Suc j)) (search_region S cs))"

subsection \<open>The replacement template\<close>

text \<open>
  \<^verbatim>\<open>Pattern.subn\<close> reads a replacement string as a template (\<^verbatim>\<open>re._parser.parse_template\<close>,
  here as in CPython 3.12, for a pattern without groups). The tokenizer cuts the template
  into single characters and pairs of a backslash and the character after it; a
  backslash at the very end is an error, raised as soon as the token before it is taken.
\<close>

datatype tok = Ch char | Esc char | Dangling

fun tokenize :: "string \<Rightarrow> tok list" where
  "tokenize [] = []"
| "tokenize [c] = (if c = backslash then [Dangling] else [Ch c])"
| "tokenize (c # d # ds) =
     (if c = backslash then Esc d # tokenize ds else Ch c # tokenize (d # ds))"

fun tok_text :: "tok \<Rightarrow> string" where
  "tok_text (Ch c) = [c]"
| "tok_text (Esc c) = [backslash, c]"
| "tok_text Dangling = [backslash]"

text \<open>A parsed template: literal characters and references to group 0, the whole match.\<close>

datatype titem = TChar char | TGroup0

definition isoctdigit :: "char \<Rightarrow> bool" where
  "isoctdigit c = (CHR ''0'' \<le> c \<and> c \<le> CHR ''7'')"

definition is_ascii_letter :: "char \<Rightarrow> bool" where
  "is_ascii_letter c = ((CHR ''a'' \<le> c \<and> c \<le> CHR ''z'') \<or> (CHR ''A'' \<le> c \<and> c \<le> CHR ''Z''))"

text \<open>
  \<^verbatim>\<open>str.isidentifier\<close> on code points below 256: the first character has the Unicode
  property XID_Start or is an underscore, the others have XID_Continue.
\<close>

definition is_xid_start :: "char \<Rightarrow> bool" where
  "is_xid_start c =
     (let n = (of_char c :: nat) in
      is_ascii_letter c \<or> n = 170 \<or> n = 181 \<or> n = 186
      \<or> (192 \<le> n \<and> n \<le> 214) \<or> (216 \<le> n \<and> n \<le> 246) \<or> 248 \<le> n)"

definition is_xid_continue :: "char \<Rightarrow> bool" where
  "is_xid_continue c = (is_xid_start c \<or> isdigit c \<or> c = CHR ''_'' \<or> (of_char c :: nat) = 183)"

definition isidentifier :: "string \<Rightarrow> bool" where
  "isidentifier name =
     (case name of
        [] \<Rightarrow> False
      | c # cs \<Rightarrow> (is_xid_start c \<or> c = CHR ''_'') \<and> list_all is_xid_continue cs)"

text \<open>
  \<^verbatim>\<open>Tokenizer.getuntil(">")\<close>: the tokens up to the first token \<^verbatim>\<open>>\<close>, and what follows
  it; \<open>None\<close> when there is no such token.
\<close>

fun getuntil :: "tok list \<Rightarrow> (string \<times> tok list) option" where
  "getuntil [] = None"
| "getuntil (t # ts) =
     (if t = Ch (CHR ''>'') then Some ([], ts)
      else map_option (\<lambda>(name, rest). (tok_text t @ name, rest)) (getuntil ts))"

lemma getuntil_shorter: "getuntil ts = Some (name, rest) \<Longrightarrow> length rest < length ts"
  by (induction ts arbitrary: name rest) (auto split: if_splits)

text \<open>
  The simple escapes of a template. Any other escaped ASCII letter is an error; an
  escaped character that is neither a letter nor a digit stays as it is, backslash
  included.
\<close>

definition simple_escape :: "char \<Rightarrow> char option" where
  "simple_escape c =
     (if c = CHR ''a'' then Some (CHR 0x07)
      else if c = CHR ''b'' then Some (CHR 0x08)
      else if c = CHR ''f'' then Some (CHR 0x0C)
      else if c = CHR ''n'' then Some (CHR 0x0A)
      else if c = CHR ''r'' then Some (CHR 0x0D)
      else if c = CHR ''t'' then Some (CHR 0x09)
      else if c = CHR ''v'' then Some (CHR 0x0B)
      else if c = backslash then Some backslash
      else None)"

definition cons_items :: "titem list \<Rightarrow> exn + titem list \<Rightarrow> exn + titem list" where
  "cons_items xs r = (case r of Inl e \<Rightarrow> Inl e | Inr ys \<Rightarrow> Inr (xs @ ys))"

text \<open>
  \<open>group_ref name next_dangling\<close> is the reference \<^verbatim>\<open>\g<name>\<close> in a pattern that has no
  group but group 0: a decimal name must denote 0, a name that is an identifier is an
  unknown group (IndexError), any other name is an error of the template. The token
  \<^verbatim>\<open>>\<close> is taken before the name is looked at, so a dangling backslash right after
  it is reported first.
\<close>

definition group_ref :: "string \<Rightarrow> bool \<Rightarrow> exn + titem list" where
  "group_ref name next_dangling =
     (if name = [] \<or> next_dangling then Inl ReError
      else if list_all isdigit name
      then (if list_all (\<lambda>c. c = CHR ''0'') name then Inr [TGroup0] else Inl ReError)
      else if isidentifier name then Inl IndexError
      else Inl ReError)"

function parse_tokens :: "tok list \<Rightarrow> exn + titem list" where
  "parse_tokens [] = Inr []"
| "parse_tokens (Dangling # ts) = Inl ReError"
| "parse_tokens (Ch c # ts) =
     (if ts \<noteq> [] \<and> hd ts = Dangling then Inl ReError
      else cons_items [TChar c] (parse_tokens ts))"
| "parse_tokens (Esc c # ts) =
     (if ts \<noteq> [] \<and> hd ts = Dangling then Inl ReError
      else if c = CHR ''g'' then
        (case ts of
           [] \<Rightarrow> Inl ReError
         | t # ts' \<Rightarrow>
           if t \<noteq> Ch (CHR ''<'') then Inl ReError
           else (case getuntil ts' of
                   None \<Rightarrow> Inl ReError
                 | Some (name, rest) \<Rightarrow>
                     (case group_ref name (rest \<noteq> [] \<and> hd rest = Dangling) of
                        Inl e \<Rightarrow> Inl e
                      | Inr g \<Rightarrow> cons_items g (parse_tokens rest))))
      else if c = CHR ''0'' then
        (case ts of
           Ch d1 # Ch d2 # ts' \<Rightarrow>
             if isoctdigit d1 \<and> isoctdigit d2
             then cons_items [TChar (char_of (8 * digit_val d1 + digit_val d2))] (parse_tokens ts')
             else if isoctdigit d1
             then cons_items [TChar (char_of (digit_val d1))] (parse_tokens (Ch d2 # ts'))
             else cons_items [TChar (CHR 0x00)] (parse_tokens ts)
         | Ch d1 # ts' \<Rightarrow>
             if isoctdigit d1
             then cons_items [TChar (char_of (digit_val d1))] (parse_tokens ts')
             else cons_items [TChar (CHR 0x00)] (parse_tokens ts)
         | _ \<Rightarrow> cons_items [TChar (CHR 0x00)] (parse_tokens ts))
      else if isdigit c then
        (case ts of
           Ch d1 # Ch d2 # ts' \<Rightarrow>
             if isoctdigit c \<and> isoctdigit d1 \<and> isoctdigit d2
                \<and> 64 * digit_val c + 8 * digit_val d1 + digit_val d2 \<le> 255
             then cons_items [TChar (char_of (64 * digit_val c + 8 * digit_val d1 + digit_val d2))]
                    (parse_tokens ts')
             else Inl ReError
         | _ \<Rightarrow> Inl ReError)
      else
        (case simple_escape c of
           Some x \<Rightarrow> cons_items [TChar x] (parse_tokens ts)
         | None \<Rightarrow>
             if is_ascii_letter c then Inl ReError
             else cons_items [TChar backslash, TChar c] (parse_tokens ts)))"
  by pat_completeness auto
termination
  by (relation "measure length") (auto dest: getuntil_shorter)

definition parse_template :: "string \<Rightarrow> exn + titem list" where
  "parse_template template = parse_tokens (tokenize template)"

fun expand_item :: "string \<Rightarrow> titem \<Rightarrow> string" where
  "expand_item m (TChar c) = [c]"
| "expand_item m TGroup0 = m"

definition expand_template :: "titem list \<Rightarrow> string \<Rightarrow> string" where
  "expand_template items m = concat (map (expand_item m) items)"

text \<open>
  \<^verbatim>\<open>pattern.subn(template, content, count=1)\<close>: the template is compiled first, then the
  leftmost match, if there is one, is replaced; the second component is the number of
  replacements made, which \<^verbatim>\<open>count=1\<close> keeps at most 1.
\<close>

definition subn_first :: "string \<Rightarrow> string \<Rightarrow> string \<Rightarrow> exn + (string \<times> nat)" where
  "subn_first S template content =
     (case parse_template template of
        Inl e \<Rightarrow> Inl e
      | Inr items \<Rightarrow>
        (case search_region S content of
           None \<Rightarrow> Inr (content, 0)
         | Some (i, j) \<Rightarrow>
             Inr (take i content @ expand_template items (take (j - i) (drop i content))
                    @ drop j content, 1)))"

definition replace_marker :: "string \<Rightarrow> string \<Rightarrow> string \<Rightarrow> exn + string" where
  "replace_marker content marker replacement =
     (case subn_first (sentinel marker) (sentinel marker @ replacement @ sentinel marker) content of
        Inl e \<Rightarrow> Inl e
      | Inr (updated_content, count) \<Rightarrow>
          if count \<noteq> 1
          then Inl (RuntimeError (''README marker '' @ [CHR 0x27] @ marker @ [CHR 0x27]
                                    @ '' was not found exactly once.''))
          else Inr updated_content)"

section \<open>Timestamps\<close>

text \<open>
  The fields of a \<^verbatim>\<open>datetime\<close>. Where the model speaks of a \<open>datetime\<close> alone, its
  \<^verbatim>\<open>tzinfo\<close> is \<^verbatim>\<open>timezone.utc\<close>, as for every \<^verbatim>\<open>started_at\<close> that \<^verbatim>\<open>parse_started_at\<close>
  returns; two of them compare as the tuples of their fields. Where the \<^verbatim>\<open>tzinfo\<close> can
  differ, the UTC offset stands beside the fields, in microseconds, \<open>None\<close> for a naive
  \<^verbatim>\<open>datetime\<close>.
\<close>

record datetime =
  year :: int
  month :: int
  day :: int
  hour :: int
  minute :: int
  second :: int
  microsecond :: int

subsection \<open>The proleptic Gregorian calendar of the \<^verbatim>\<open>datetime\<close> module\<close>

definition is_leap :: "int \<Rightarrow> bool" where
  "is_leap y = (y mod 4 = 0 \<and> (y mod 100 \<noteq> 0 \<or> y mod 400 = 0))"

definition days_in_month :: "int \<Rightarrow> int \<Rightarrow> int" where
  "days_in_month y m =
     (if m = 2 then (if is_leap y then 29 else 28)
      else if m = 4 \<or> m = 6 \<or> m = 9 \<or> m = 11 then 30 else 31)"

definition days_before_year :: "int \<Rightarrow> int" where
  "days_before_year y = (y - 1) * 365 + (y - 1) div 4 - (y - 1) div 100 + (y - 1) div 400"

definition days_before_month :: "int \<Rightarrow> int \<Rightarrow> int" where
  "days_before_month y m = (\<Sum>k \<leftarrow> [1..<nat m]. days_in_month y (int k))"

definition ymd2ord :: "int \<Rightarrow> int \<Rightarrow> int \<Rightarrow> int" where
  "ymd2ord y m d = days_before_year y + days_before_month y m + d"

text \<open>
  \<^verbatim>\<open>_ord2ymd\<close>: the date of an ordinal, by the cycles of 400, 100, 4 and 1 years; 1 is
  a year that is not a leap year, for the days before a month in such a year.
\<close>

definition ord2ymd :: "int \<Rightarrow> int \<times> int \<times> int" where
  "ord2ymd ordinal =
     (let n0 = ordinal - 1;
          n400 = n0 div 146097; r400 = n0 mod 146097;
          n100 = r400 div 36524; r100 = r400 mod 36524;
          n4 = r100 div 1461; r4 = r100 mod 1461;
          n1 = r4 div 365; n = r4 mod 365;
          y = n400 * 400 + 1 + n100 * 100 + n4 * 4 + n1
      in if n1 = 4 \<or> n100 = 4 then (y - 1, 12, 31)
         else
           (let leapyear = (n1 = 3 \<and> (n4 \<noteq> 24 \<or> n100 = 3));
                m = (n + 50) div 32;
                preceding = days_before_month 1 m + (if 2 < m \<and> leapyear then 1 else 0)
            in if n < preceding
               then (y, m - 1,
                     n - (preceding - (days_in_month 1 (m - 1)
                            + (if m - 1 = 2 \<and> leapyear then 1 else 0))) + 1)
               else (y, m, n - preceding + 1)))"

definition MAXORDINAL :: int where
  "MAXORDINAL = 3652059"

text \<open>A \<^verbatim>\<open>datetime\<close> as microseconds since the start of year 1, and back.\<close>

definition to_microseconds :: "datetime \<Rightarrow> int" where
  "to_microseconds d =
     (((ymd2ord (year d) (month d) (day d) * 24 + hour d) * 60 + minute d) * 60 + second d)
       * 1000000 + microsecond d"

definition of_microseconds :: "int \<Rightarrow> exn + datetime" where
  "of_microseconds t =
     (let ordinal = t div 86400000000; r = t mod 86400000000 in
      if ordinal < 1 \<or> MAXORDINAL < ordinal then Inl OverflowError
      else (case ord2ymd ordinal of (y, m, d) \<Rightarrow>
              Inr \<lparr>year = y, month = m, day = d,
                   hour = r div 3600000000,
                   minute = r mod 3600000000 div 60000000,
                   second = r mod 60000000 div 1000000,
                   microsecond = r mod 1000000\<rparr>))"

subsection \<open>\<^verbatim>\<open>datetime.fromisoformat\<close>\<close>

text \<open>
  The format that the documentation of Python 3.7 to 3.10 gives for \<^verbatim>\<open>fromisoformat\<close>,
  the versions for which the script replaces a final \<^verbatim>\<open>Z\<close> by hand:
  \<^verbatim>\<open>YYYY-MM-DD[*HH[:MM[:SS[.fff[fff]]]][+HH:MM[:SS[.ffffff]]]]\<close>, with any character for
  \<^verbatim>\<open>*\<close> and either sign before the offset. Later versions accept further ISO 8601
  forms. In a format string below \<^verbatim>\<open>d\<close> stands for a digit, any other character for
  itself. The fields must be in range and the offset strictly within one day, or the
  constructor raises ValueError, as for a text that is not of the format.
\<close>

definition match_fmt :: "string \<Rightarrow> string \<Rightarrow> bool" where
  "match_fmt fmt text = list_all2 (\<lambda>f c. if f = CHR ''d'' then isdigit c else c = f) fmt text"

definition field :: "string \<Rightarrow> nat \<Rightarrow> nat \<Rightarrow> int" where
  "field text i n = int (digits_val (take n (drop i text)))"

definition parse_hh_mm_ss_ff :: "string list \<Rightarrow> string \<Rightarrow> (int \<times> int \<times> int \<times> int) option" where
  "parse_hh_mm_ss_ff fmts t =
     (if list_ex (\<lambda>f. match_fmt f t) fmts
      then Some (field t 0 2, field t 3 2, field t 6 2,
                 (if length t = 12 then 1000 * field t 9 3 else field t 9 6))
      else None)"

definition time_formats :: "string list" where
  "time_formats = [''dd'', ''dd:dd'', ''dd:dd:dd'', ''dd:dd:dd.ddd'', ''dd:dd:dd.dddddd'']"

definition offset_formats :: "string list" where
  "offset_formats = [''dd:dd'', ''dd:dd:dd'', ''dd:dd:dd.dddddd'']"

definition is_sign :: "char \<Rightarrow> bool" where
  "is_sign c = (c = CHR ''+'' \<or> c = CHR ''-'')"

text \<open>The time of day and the UTC offset of the text after the separator.\<close>

definition parse_isoformat_time :: "string \<Rightarrow> ((int \<times> int \<times> int \<times> int) \<times> int option) option" where
  "parse_isoformat_time tstr =
     (let timestr = takeWhile (\<lambda>c. \<not> is_sign c) tstr;
          rest = dropWhile (\<lambda>c. \<not> is_sign c) tstr
      in case parse_hh_mm_ss_ff time_formats timestr of
           None \<Rightarrow> None
         | Some tm \<Rightarrow>
           (case rest of
              [] \<Rightarrow> Some (tm, None)
            | sg # tzstr \<Rightarrow>
              (case parse_hh_mm_ss_ff offset_formats tzstr of
                 None \<Rightarrow> None
               | Some (h, m, sec, us) \<Rightarrow>
                   let off = ((h * 60 + m) * 60 + sec) * 1000000 + us in
                   if 86400000000 \<le> off then None
                   else Some (tm, Some (if sg = CHR ''-'' then - off else off)))))"

definition check_date_fields :: "int \<Rightarrow> int \<Rightarrow> int \<Rightarrow> bool" where
  "check_date_fields y m d =
     (1 \<le> y \<and> y \<le> 9999 \<and> 1 \<le> m \<and> m \<le> 12 \<and> 1 \<le> d \<and> d \<le> days_in_month y m)"

definition check_time_fields :: "int \<times> int \<times> int \<times> int \<Rightarrow> bool" where
  "check_time_fields tm =
     (case tm of (h, m, sec, us) \<Rightarrow> h \<le> 23 \<and> m \<le> 59 \<and> sec \<le> 59 \<and> us \<le> 999999)"

definition fromisoformat :: "string \<Rightarrow> exn + (datetime \<times> int option)" where
  "fromisoformat date_string =
     (let dstr = take 10 date_string; tstr = drop 11 date_string in
      if \<not> match_fmt ''dddd-dd-dd'' dstr then Inl ValueError
      else
        (case (if length date_string = 10 then Some ((0, 0, 0, 0), None)
               else parse_isoformat_time tstr) of
           None \<Rightarrow> Inl ValueError
         | Some (tm, off) \<Rightarrow>
             if check_date_fields (field dstr 0 4) (field dstr 5 2) (field dstr 8 2)
                \<and> check_time_fields tm
             then (case tm of (h, m, sec, us) \<Rightarrow>
                     Inr (\<lparr>year = field dstr 0 4, month = field dstr 5 2, day = field dstr 8 2,
                           hour = h, minute = m, second = sec, microsecond = us\<rparr>, off))
             else Inl ValueError))"

subsection \<open>\<^verbatim>\<open>astimezone(timezone.utc)\<close>\<close>

text \<open>
  The offset is subtracted from the fields; a result before year 1 or after year 9999
  raises OverflowError. For a naive \<^verbatim>\<open>datetime\<close> the offset is that of the local time
  zone of the machine, the parameter \<open>local_utcoffset\<close>, which may itself raise.
\<close>

definition astimezone_utc ::
  "(datetime \<Rightarrow> exn + int) \<Rightarrow> datetime \<times> int option \<Rightarrow> exn + datetime" where
  "astimezone_utc local_utcoffset dt =
     (case dt of (d, off) \<Rightarrow>
        (case (case off of Some x \<Rightarrow> Inr x | None \<Rightarrow> local_utcoffset d) of
           Inl e \<Rightarrow> Inl e
         | Inr x \<Rightarrow> of_microseconds (to_microseconds d - x)))"

subsection \<open>\<^verbatim>\<open>parse_started_at\<close>\<close>

text \<open>
  The handler catches ValueError only. With \<open>date_only\<close> the text that is parsed ends in
  \<^verbatim>\<open>+00:00\<close>, and the \<^verbatim>\<open>datetime\<close> that \<^verbatim>\<open>fromisoformat\<close> builds is returned as it is.
\<close>

definition parse_started_at ::
  "(datetime \<Rightarrow> exn + int) \<Rightarrow> string \<Rightarrow> bool \<Rightarrow> exn + datetime option" where
  "parse_started_at local_utcoffset v date_only =
     (let text = strip v in
      if text = [] then Inr None
      else if date_only
      then (case fromisoformat (text @ ''T00:00:00+00:00'') of
              Inr (d, off) \<Rightarrow> Inr (Some d)
            | Inl ValueError \<Rightarrow> Inr None
            | Inl e \<Rightarrow> Inl e)
      else (case fromisoformat (replace_char (CHR ''Z'') ''+00:00'' text) of
              Inl ValueError \<Rightarrow> Inr None
            | Inl e \<Rightarrow> Inl e
            | Inr dt \<Rightarrow>
              (case astimezone_utc local_utcoffset dt of
                 Inr d \<Rightarrow> Inr (Some d)
               | Inl ValueError \<Rightarrow> Inr None
               | Inl e \<Rightarrow> Inl e)))"

section \<open>Sponsors\<close>

record Sponsor =
  platform :: string
  key :: string
  name :: string
  profile_url :: string
  avatar_url :: string
  started_at :: datetime
  tier :: string
  monthly_amount :: decimal
  currency :: string

definition REGULAR_WIDTH :: string where
  "REGULAR_WIDTH = ''80px''"

definition HIGHLIGHTED_WIDTH :: string where
  "HIGHLIGHTED_WIDTH = ''120px''"

subsection \<open>\<^verbatim>\<open>sort_and_dedupe\<close>\<close>

text \<open>
  The dictionary \<^verbatim>\<open>unique\<close> is an association list in insertion order: assigning to a
  key that is present replaces its value in place, assigning to a new key appends, which
  is \<open>AList.update\<close>. \<^verbatim>\<open>unique.values()\<close> are the second components in that order.
\<close>

definition sponsor_identity :: "Sponsor \<Rightarrow> string \<times> string" where
  "sponsor_identity sponsor = (platform sponsor, key sponsor)"

definition unique_of :: "Sponsor list \<Rightarrow> ((string \<times> string) \<times> Sponsor) list" where
  "unique_of sponsors =
     foldl (\<lambda>unique sponsor. AList.update (sponsor_identity sponsor) sponsor unique) [] sponsors"

text \<open>
  The sort key. \<^verbatim>\<open>str.casefold\<close> is given by the tables of the Unicode standard; it is a
  parameter \<open>casefold\<close> of the model, and what is proved holds for every such function.
  Python compares the key tuples lexicographically, strings by code points, which is the
  order of HOL's products and lists; \<^verbatim>\<open>sorted\<close> is stable, as \<open>sort_key\<close> is.
\<close>

definition datetime_fields :: "datetime \<Rightarrow> int \<times> int \<times> int \<times> int \<times> int \<times> int \<times> int" where
  "datetime_fields d = (year d, month d, day d, hour d, minute d, second d, microsecond d)"

definition sponsor_sort_key ::
  "(string \<Rightarrow> string) \<Rightarrow> Sponsor \<Rightarrow> (int \<times> int \<times> int \<times> int \<times> int \<times> int \<times> int) \<times> string \<times> string \<times> string" where
  "sponsor_sort_key casefold sponsor =
     (datetime_fields (started_at sponsor), casefold (name sponsor), platform sponsor, key sponsor)"

definition sort_and_dedupe :: "(string \<Rightarrow> string) \<Rightarrow> Sponsor list \<Rightarrow> Sponsor list" where
  "sort_and_dedupe casefold sponsors =
     sort_key (sponsor_sort_key casefold) (map snd (unique_of sponsors))"

subsection \<open>Rendering and the pure part of \<^verbatim>\<open>main\<close>\<close>

definition render_sponsor :: "Sponsor \<Rightarrow> string \<Rightarrow> string" where
  "render_sponsor sponsor width =
     ''<a href='' @ [CHR 0x22] @ html_escape (profile_url sponsor) True @ [CHR 0x22] @ ''>''
     @ ''<img src='' @ [CHR 0x22] @ html_escape (avatar_url sponsor) True @ [CHR 0x22] @ '' ''
     @ ''width='' @ [CHR 0x22] @ width @ [CHR 0x22] @ '' alt='' @ [CHR 0x22]
     @ html_escape (name sponsor) True @ [CHR 0x22] @ '' /></a>&nbsp;&nbsp;''"

text \<open>
  Lines 371 to 373 of \<^verbatim>\<open>main\<close>: the Liberapay sponsors, when a Liberapay user name is
  given, are put in front of the GitHub sponsors.
\<close>

definition merge_sponsors :: "Sponsor list \<Rightarrow> Sponsor list option \<Rightarrow> Sponsor list" where
  "merge_sponsors github liberapay =
     (case liberapay of None \<Rightarrow> github | Some sponsors \<Rightarrow> sponsors @ github)"

definition tier_sponsors :: "(string \<Rightarrow> string) \<Rightarrow> string \<Rightarrow> Sponsor list \<Rightarrow> Sponsor list" where
  "tier_sponsors casefold t sponsors =
     sort_and_dedupe casefold [sponsor \<leftarrow> sponsors. tier sponsor = t]"

definition render_all :: "string \<Rightarrow> Sponsor list \<Rightarrow> string" where
  "render_all width sponsors = concat (map (\<lambda>sponsor. render_sponsor sponsor width) sponsors)"

text \<open>Lines 375 to 394 of \<^verbatim>\<open>main\<close>: from the text of the README to the text written back.\<close>

definition update_readme :: "(string \<Rightarrow> string) \<Rightarrow> Sponsor list \<Rightarrow> string \<Rightarrow> exn + string" where
  "update_readme casefold sponsors readme =
     (case replace_marker readme ''sponsors-highlighted''
             (render_all HIGHLIGHTED_WIDTH (tier_sponsors casefold ''highlighted'' sponsors)) of
        Inl e \<Rightarrow> Inl e
      | Inr readme' \<Rightarrow>
          replace_marker readme' ''sponsors''
            (render_all REGULAR_WIDTH (tier_sponsors casefold ''regular'' sponsors)))"

subsection \<open>Example data\<close>

text \<open>A sponsor record for the worked examples.\<close>

definition example_sponsor :: "string \<Rightarrow> string \<Rightarrow> string \<Rightarrow> int \<Rightarrow> string \<Rightarrow> Sponsor" where
  "example_sponsor p k n d t =
     \<lparr>platform = p, key = k, name = n,
      profile_url = ''https://example.org/'' @ k,
      avatar_url = ''https://example.org/'' @ k @ ''.png'',
      started_at = \<lparr>year = 2024, month = 1, day = d, hour = 0, minute = 0, second = 0, microsecond = 0\<rparr>,
      tier = t, monthly_amount = DFinite False 10 0, currency = ''USD''\<rparr>"

section \<open>Comparison of decimals is the order of the numbers\<close>

lemma sgn_int_simps:
  "0 \<le> sgn_int d \<longleftrightarrow> 0 \<le> d" "sgn_int d \<le> 0 \<longleftrightarrow> d \<le> 0" "sgn_int d < 0 \<longleftrightarrow> d < 0"
  by (auto simp: sgn_int_def)

lemma scaled_rat:
  fixes k :: int
  assumes "m \<le> e"
  shows "(of_int (k * 10 ^ nat (e - m)) :: rat) = of_int k * 10 powi e * 10 powi (- m)"
proof -
  have "(10::rat) powi e * 10 powi (- m) = 10 powi (e - m)"
    by (simp add: power_int_add [symmetric])
  also have "\<dots> = 10 ^ nat (e - m)"
    using assms by (simp add: power_int_def)
  finally show ?thesis by (simp add: mult.assoc)
qed

lemma finite_cmp_le:
  "dec_cmp (DFinite s1 c1 e1) (DFinite s2 c2 e2) \<le> 0
     \<longleftrightarrow> rat_of_finite s1 c1 e1 \<le> rat_of_finite s2 c2 e2"
proof -
  define m where "m = min e1 e2"
  define a where "a = signed_coeff s1 c1"
  define b where "b = signed_coeff s2 c2"
  have m: "m \<le> e1" "m \<le> e2" by (simp_all add: m_def)
  have pos: "(0::rat) < 10 powi (- m)" by (simp add: power_int_def)
  have "dec_cmp (DFinite s1 c1 e1) (DFinite s2 c2 e2) \<le> 0
          \<longleftrightarrow> a * 10 ^ nat (e1 - m) \<le> b * 10 ^ nat (e2 - m)"
    by (simp add: sgn_int_simps m_def a_def b_def)
  also have "\<dots> \<longleftrightarrow> (of_int (a * 10 ^ nat (e1 - m)) :: rat) \<le> of_int (b * 10 ^ nat (e2 - m))"
    by (simp only: of_int_le_iff)
  also have "\<dots> \<longleftrightarrow> of_int a * 10 powi e1 * 10 powi (- m) \<le> (of_int b * 10 powi e2 * 10 powi (- m) :: rat)"
    by (simp only: scaled_rat [OF m(1)] scaled_rat [OF m(2)])
  also have "\<dots> \<longleftrightarrow> of_int a * 10 powi e1 \<le> (of_int b * 10 powi e2 :: rat)"
    using pos by (simp only: mult_le_cancel_right_pos)
  finally show ?thesis by (simp add: rat_of_finite_def a_def b_def)
qed

lemma dec_cmp_le: "\<not> is_nan a \<Longrightarrow> \<not> is_nan b \<Longrightarrow> dec_cmp a b \<le> 0 \<longleftrightarrow> num_le a b"
proof (cases a; cases b)
  fix s1 c1 e1 s2 c2 e2
  assume "a = DFinite s1 c1 e1" "b = DFinite s2 c2 e2"
  then show "dec_cmp a b \<le> 0 \<longleftrightarrow> num_le a b"
    using finite_cmp_le [of s1 c1 e1 s2 c2 e2] by simp
qed (auto simp: sgn_int_def)

lemma dec_cmp_antisym: "dec_cmp a b = - dec_cmp b a"
proof (cases a; cases b)
  fix s1 c1 e1 s2 c2 e2
  assume "a = DFinite s1 c1 e1" "b = DFinite s2 c2 e2"
  then show "dec_cmp a b = - dec_cmp b a"
    by (simp add: sgn_int_def min.commute)
qed (auto simp: sgn_int_def)

lemma dec_cmp_ge: "\<not> is_nan a \<Longrightarrow> \<not> is_nan b \<Longrightarrow> 0 \<le> dec_cmp a b \<longleftrightarrow> num_le b a"
  using dec_cmp_le [of b a] dec_cmp_antisym [of a b] by simp

lemma dec_cmp_lt: "\<not> is_nan a \<Longrightarrow> \<not> is_nan b \<Longrightarrow> dec_cmp a b < 0 \<longleftrightarrow> num_less a b"
proof -
  assume n: "\<not> is_nan a" "\<not> is_nan b"
  have "dec_cmp a b < 0 \<longleftrightarrow> dec_cmp a b \<le> 0 \<and> \<not> 0 \<le> dec_cmp a b"
    by auto
  then show ?thesis
    using n by (simp add: dec_cmp_le dec_cmp_ge num_less_def)
qed

lemma num_le_total: "\<not> is_nan a \<Longrightarrow> \<not> is_nan b \<Longrightarrow> num_le a b \<or> num_le b a"
  by (cases a; cases b) auto

lemma num_le_trans: "num_le a b \<Longrightarrow> num_le b c \<Longrightarrow> num_le a c"
  by (cases a; cases b; cases c) auto

lemma num_le_not_nan: "num_le a b \<Longrightarrow> \<not> is_nan a \<and> \<not> is_nan b"
  by (cases a; cases b) auto

section \<open>Classification by \<^verbatim>\<open>monthly_tier\<close>\<close>

lemma monthly_tier_eval:
  assumes "\<not> is_nan a" "\<not> is_nan r" "\<not> is_nan h"
  shows "monthly_tier a r h =
           Inr (if num_le h a then Some ''highlighted''
                else if num_le r a \<and> num_less a h then Some ''regular'' else None)"
  using assms by (auto simp: monthly_tier_def decimal_ge_def decimal_le_def decimal_lt_def
      dec_cmp_ge dec_cmp_le dec_cmp_lt split: bool.splits)

lemma monthly_tier_nan: "is_nan a \<Longrightarrow> monthly_tier a r h = Inl InvalidOperation"
  by (simp add: monthly_tier_def decimal_ge_def)

lemma check_non_negative_not_nan:
  "check_non_negative vs = Inr u \<Longrightarrow> v \<in> set vs \<Longrightarrow> \<not> is_nan v"
  by (induction vs) (auto simp: decimal_lt_def split: if_splits sum.splits bool.splits)

lemma build_thresholds_enforces:
  assumes "build_thresholds args = Inr th"
  shows "th = args"
    and "num_le (github_regular_monthly_minimum th) (github_highlighted_monthly_minimum th)"
    and "num_le (liberapay_regular_weekly_minimum th) (liberapay_highlighted_weekly_minimum th)"
proof -
  from assms obtain u where
    c: "check_non_negative
          [github_regular_monthly_minimum args, github_highlighted_monthly_minimum args,
           liberapay_regular_weekly_minimum args, liberapay_highlighted_weekly_minimum args] = Inr u"
    and g: "decimal_lt (github_highlighted_monthly_minimum args)
              (github_regular_monthly_minimum args) = Inr False"
    and l: "decimal_lt (liberapay_highlighted_weekly_minimum args)
              (liberapay_regular_weekly_minimum args) = Inr False"
    and t: "th = args"
    by (auto simp: build_thresholds_def split: sum.splits bool.splits)
  have n: "\<not> is_nan (github_regular_monthly_minimum args)"
      "\<not> is_nan (github_highlighted_monthly_minimum args)"
      "\<not> is_nan (liberapay_regular_weekly_minimum args)"
      "\<not> is_nan (liberapay_highlighted_weekly_minimum args)"
    using check_non_negative_not_nan [OF c] by simp_all
  show "th = args" by (rule t)
  show "num_le (github_regular_monthly_minimum th) (github_highlighted_monthly_minimum th)"
    using g n num_le_total [OF n(1) n(2)]
    by (auto simp: t decimal_lt_def dec_cmp_lt num_less_def)
  show "num_le (liberapay_regular_weekly_minimum th) (liberapay_highlighted_weekly_minimum th)"
    using l n num_le_total [OF n(3) n(4)]
    by (auto simp: t decimal_lt_def dec_cmp_lt num_less_def)
qed

text \<open>
  C4, at an amount that is not a number. The NaN is not at or above the highlighted
  minimum 20 and is not between the regular minimum 5 and 20, so the claim has
  \<^verbatim>\<open>monthly_tier\<close> return \<^verbatim>\<open>None\<close> here; the comparison raises InvalidOperation instead.
\<close>

theorem monthly_tier_nan_counterexample:
  "\<not> num_le (DFinite False 20 0) (DNaN False 0)
   \<and> \<not> (num_le (DFinite False 5 0) (DNaN False 0) \<and> num_less (DNaN False 0) (DFinite False 20 0))
   \<and> monthly_tier (DNaN False 0) (DFinite False 5 0) (DFinite False 20 0) \<noteq> Inr None
   \<and> monthly_tier (DNaN False 0) (DFinite False 5 0) (DFinite False 20 0) = Inl InvalidOperation"
  by (simp add: monthly_tier_def decimal_ge_def)

text \<open>
  C4, amended: for every monthly amount and every pair of minimums that are numbers (finite
  or infinite, not NaN), \<^verbatim>\<open>monthly_tier\<close> returns "highlighted" exactly when the amount is at
  least the highlighted minimum, "regular" exactly when the amount is at least the regular
  minimum and below the highlighted minimum, and \<^verbatim>\<open>None\<close> exactly in the remaining cases.
\<close>

theorem monthly_tier_classification:
  assumes "\<not> is_nan a" "\<not> is_nan r" "\<not> is_nan h"
  shows "(monthly_tier a r h = Inr (Some ''highlighted'') \<longleftrightarrow> num_le h a)
       \<and> (monthly_tier a r h = Inr (Some ''regular'') \<longleftrightarrow> \<not> num_le h a \<and> num_le r a \<and> num_less a h)
       \<and> (monthly_tier a r h = Inr None \<longleftrightarrow> \<not> num_le h a \<and> \<not> (num_le r a \<and> num_less a h))"
  by (simp add: monthly_tier_eval [OF assms])

theorem monthly_tier_classification_witness:
  "\<not> is_nan (DFinite False 10 0) \<and> \<not> is_nan (DFinite False 5 0) \<and> \<not> is_nan (DFinite False 20 0)
   \<and> num_le (DFinite False 5 0) (DFinite False 10 0) \<and> num_less (DFinite False 10 0) (DFinite False 20 0)
   \<and> monthly_tier (DFinite False 10 0) (DFinite False 5 0) (DFinite False 20 0) = Inr (Some ''regular'')"
proof -
  have n: "\<not> is_nan (DFinite False 10 0)" "\<not> is_nan (DFinite False 5 0)" "\<not> is_nan (DFinite False 20 0)"
    by simp_all
  have o: "\<not> num_le (DFinite False 20 0) (DFinite False 10 0)"
      "num_le (DFinite False 5 0) (DFinite False 10 0)"
      "num_less (DFinite False 10 0) (DFinite False 20 0)"
    by (simp_all add: num_less_def rat_of_finite_def signed_coeff_def)
  show ?thesis
    using monthly_tier_classification [OF n] n o by blast
qed

text \<open>
  C5: under thresholds that \<^verbatim>\<open>build_thresholds\<close> has accepted (so the highlighted minimum
  is at least the regular one), for amounts \<open>a1 < a2\<close> both calls of \<^verbatim>\<open>monthly_tier\<close> return,
  and the tier of \<open>a1\<close> is never above the tier of \<open>a2\<close> in the order excluded, regular,
  highlighted.
\<close>

theorem monthly_tier_monotone:
  assumes "build_thresholds args = Inr th"
      and "num_less a1 a2"
  shows "\<exists>t1 t2.
           monthly_tier a1 (github_regular_monthly_minimum th) (github_highlighted_monthly_minimum th) = Inr t1
         \<and> monthly_tier a2 (github_regular_monthly_minimum th) (github_highlighted_monthly_minimum th) = Inr t2
         \<and> tier_rank t1 \<le> tier_rank t2"
proof -
  let ?r = "github_regular_monthly_minimum th" and ?h = "github_highlighted_monthly_minimum th"
  have rh: "num_le ?r ?h" by (rule build_thresholds_enforces(2) [OF assms(1)])
  have a: "num_le a1 a2" "\<not> num_le a2 a1" using assms(2) by (simp_all add: num_less_def)
  have n: "\<not> is_nan a1" "\<not> is_nan a2" "\<not> is_nan ?r" "\<not> is_nan ?h"
    using num_le_not_nan [OF a(1)] num_le_not_nan [OF rh] by simp_all
  have 1: "num_le ?h a1 \<Longrightarrow> num_le ?h a2" using a(1) by (rule num_le_trans [rotated])
  have 2: "num_le ?r a1 \<Longrightarrow> num_le ?r a2" using a(1) by (rule num_le_trans [rotated])
  have 3: "\<not> num_le ?h a2 \<Longrightarrow> num_less a2 ?h"
    using num_le_total [OF n(2) n(4)] by (auto simp: num_less_def)
  show ?thesis
    using 1 2 3
    by (auto simp: monthly_tier_eval [OF n(1) n(3) n(4)] monthly_tier_eval [OF n(2) n(3) n(4)]
        tier_rank_def)
qed

theorem monthly_tier_monotone_witness:
  "build_thresholds \<lparr>github_regular_monthly_minimum = DFinite False 5 0,
                     github_highlighted_monthly_minimum = DFinite False 20 0,
                     liberapay_regular_weekly_minimum = DFinite False 1 0,
                     liberapay_highlighted_weekly_minimum = DFinite False 5 0\<rparr>
     = Inr \<lparr>github_regular_monthly_minimum = DFinite False 5 0,
            github_highlighted_monthly_minimum = DFinite False 20 0,
            liberapay_regular_weekly_minimum = DFinite False 1 0,
            liberapay_highlighted_weekly_minimum = DFinite False 5 0\<rparr>
   \<and> num_less (DFinite False 10 0) (DFinite False 25 0)
   \<and> (\<exists>t1 t2. monthly_tier (DFinite False 10 0) (DFinite False 5 0) (DFinite False 20 0) = Inr t1
            \<and> monthly_tier (DFinite False 25 0) (DFinite False 5 0) (DFinite False 20 0) = Inr t2
            \<and> tier_rank t1 \<le> tier_rank t2)"
proof -
  let ?th = "\<lparr>github_regular_monthly_minimum = DFinite False 5 0,
              github_highlighted_monthly_minimum = DFinite False 20 0,
              liberapay_regular_weekly_minimum = DFinite False 1 0,
              liberapay_highlighted_weekly_minimum = DFinite False 5 0\<rparr>"
  have b: "build_thresholds ?th = Inr ?th"
    by (simp add: build_thresholds_def decimal_lt_def dec_zero_def sgn_int_def signed_coeff_def)
  have l: "num_less (DFinite False 10 0) (DFinite False 25 0)"
    by (simp add: num_less_def rat_of_finite_def signed_coeff_def)
  show ?thesis
    using monthly_tier_monotone [OF b l] b l by simp
qed

section \<open>Deduplication and order of \<^verbatim>\<open>sort_and_dedupe\<close>\<close>

lemma unique_of_snoc:
  "unique_of (xs @ [x]) = AList.update (sponsor_identity x) x (unique_of xs)"
  by (simp add: unique_of_def)

lemma unique_of_distinct: "distinct (map fst (unique_of xs))"
proof (induction xs rule: rev_induct)
  case Nil
  show ?case by (simp add: unique_of_def)
next
  case (snoc x xs)
  then show ?case by (simp add: unique_of_snoc distinct_update)
qed

lemma set_update_subset: "set (AList.update k v al) \<subseteq> insert (k, v) (set al)"
  by (induction al) auto

lemma unique_of_keys: "(k, v) \<in> set (unique_of xs) \<Longrightarrow> k = sponsor_identity v"
proof (induction xs arbitrary: k v rule: rev_induct)
  case Nil
  then show ?case by (simp add: unique_of_def)
next
  case (snoc x xs)
  from snoc.prems have "(k, v) \<in> insert (sponsor_identity x, x) (set (unique_of xs))"
    using set_update_subset [of "sponsor_identity x" x "unique_of xs"]
    by (auto simp: unique_of_snoc)
  then show ?case
    using snoc.IH [of k v] by blast
qed

text \<open>The dictionary holds, under each identity of the input, the last record that has it.\<close>

lemma unique_of_map_of:
  "map_of (unique_of xs) k =
     (if k \<in> sponsor_identity ` set xs then Some (last [s \<leftarrow> xs. sponsor_identity s = k]) else None)"
proof (induction xs rule: rev_induct)
  case Nil
  then show ?case by (simp add: unique_of_def)
next
  case (snoc x xs)
  then show ?case
    by (auto simp: unique_of_snoc update_conv')
qed

lemma filter_unique:
  "distinct (map f xs) \<Longrightarrow> w \<in> set xs \<Longrightarrow> [s \<leftarrow> xs. f s = f w] = [w]"
proof (induction xs)
  case Nil
  then show ?case by simp
next
  case (Cons a xs)
  then show ?case
    by (auto simp: filter_empty_conv image_iff)
qed

lemma distinct_map_insort_key:
  "distinct (map g (insort_key f x xs)) \<longleftrightarrow> g x \<notin> g ` set xs \<and> distinct (map g xs)"
  by (induction xs) (auto simp: set_insort_key)

lemma distinct_map_sort_key: "distinct (map g (sort_key f xs)) = distinct (map g xs)"
  by (induction xs) (auto simp: distinct_map_insort_key)

lemma distinct_map_comp: "distinct (map (\<lambda>x. h (f x)) xs) \<Longrightarrow> distinct (map f xs)"
  by (induction xs) auto

lemma unique_of_identities: "map sponsor_identity (map snd (unique_of xs)) = map fst (unique_of xs)"
  using unique_of_keys [of _ _ xs] by (auto simp: map_eq_conv)

lemma sort_and_dedupe_distinct: "distinct (map sponsor_identity (sort_and_dedupe cf xs))"
  unfolding sort_and_dedupe_def distinct_map_sort_key unique_of_identities
  by (rule unique_of_distinct)

lemma sort_and_dedupe_set:
  "set (sort_and_dedupe cf xs)
     = {s \<in> set xs. last [t \<leftarrow> xs. sponsor_identity t = sponsor_identity s] = s}"
proof -
  have "s \<in> snd ` set (unique_of xs)
          \<longleftrightarrow> s \<in> set xs \<and> last [t \<leftarrow> xs. sponsor_identity t = sponsor_identity s] = s" for s
  proof
    assume "s \<in> snd ` set (unique_of xs)"
    then obtain k where m: "(k, s) \<in> set (unique_of xs)" by auto
    then have k: "k = sponsor_identity s" by (rule unique_of_keys)
    from m have "map_of (unique_of xs) k = Some s"
      using unique_of_distinct [of xs] by simp
    then have i: "k \<in> sponsor_identity ` set xs"
      and l: "last [t \<leftarrow> xs. sponsor_identity t = k] = s"
      by (simp_all add: unique_of_map_of split: if_splits)
    from i have "[t \<leftarrow> xs. sponsor_identity t = k] \<noteq> []"
      by (auto simp: filter_empty_conv)
    then have "last [t \<leftarrow> xs. sponsor_identity t = k] \<in> set [t \<leftarrow> xs. sponsor_identity t = k]"
      by (rule last_in_set)
    with l k show "s \<in> set xs \<and> last [t \<leftarrow> xs. sponsor_identity t = sponsor_identity s] = s"
      by simp
  next
    assume a: "s \<in> set xs \<and> last [t \<leftarrow> xs. sponsor_identity t = sponsor_identity s] = s"
    then have "map_of (unique_of xs) (sponsor_identity s) = Some s"
      by (simp add: unique_of_map_of)
    then have "(sponsor_identity s, s) \<in> set (unique_of xs)"
      by (rule map_of_SomeD)
    then show "s \<in> snd ` set (unique_of xs)" by force
  qed
  then show ?thesis by (auto simp: sort_and_dedupe_def)
qed

lemma sort_and_dedupe_identities:
  "sponsor_identity ` set (sort_and_dedupe cf xs) = sponsor_identity ` set xs"
proof
  show "sponsor_identity ` set (sort_and_dedupe cf xs) \<subseteq> sponsor_identity ` set xs"
    by (auto simp: sort_and_dedupe_set)
  show "sponsor_identity ` set xs \<subseteq> sponsor_identity ` set (sort_and_dedupe cf xs)"
  proof
    fix k assume "k \<in> sponsor_identity ` set xs"
    then have "[t \<leftarrow> xs. sponsor_identity t = k] \<noteq> []"
      by (auto simp: filter_empty_conv)
    then have "last [t \<leftarrow> xs. sponsor_identity t = k] \<in> set [t \<leftarrow> xs. sponsor_identity t = k]"
      by (rule last_in_set)
    then have "last [t \<leftarrow> xs. sponsor_identity t = k] \<in> set (sort_and_dedupe cf xs)"
      and "sponsor_identity (last [t \<leftarrow> xs. sponsor_identity t = k]) = k"
      by (simp_all add: sort_and_dedupe_set)
    then show "k \<in> sponsor_identity ` set (sort_and_dedupe cf xs)"
      by (metis imageI)
  qed
qed

lemma github_overwrites:
  assumes "g \<in> set gh" "tier g = T"
  shows "[s \<leftarrow> tier_sponsors cf T (merge_sponsors gh (Some lib)). sponsor_identity s = sponsor_identity g]
         = [last [t \<leftarrow> gh. tier t = T \<and> sponsor_identity t = sponsor_identity g]]"
proof -
  let ?k = "sponsor_identity g"
  let ?xs = "[s \<leftarrow> lib @ gh. tier s = T]"
  let ?w = "last [t \<leftarrow> gh. tier t = T \<and> sponsor_identity t = ?k]"
  have ne: "[t \<leftarrow> gh. tier t = T \<and> sponsor_identity t = ?k] \<noteq> []"
    using assms by (auto simp: filter_empty_conv)
  then have win: "?w \<in> set [t \<leftarrow> gh. tier t = T \<and> sponsor_identity t = ?k]"
    by (rule last_in_set)
  then have w: "?w \<in> set gh" "tier ?w = T" "sponsor_identity ?w = ?k"
    by simp_all
  have "[t \<leftarrow> ?xs. sponsor_identity t = ?k]
          = [t \<leftarrow> lib. tier t = T \<and> sponsor_identity t = ?k]
            @ [t \<leftarrow> gh. tier t = T \<and> sponsor_identity t = ?k]"
    by (simp add: conj_commute)
  then have "last [t \<leftarrow> ?xs. sponsor_identity t = ?k] = ?w"
    using ne by simp
  then have "?w \<in> set (sort_and_dedupe cf ?xs)"
    using w by (simp add: sort_and_dedupe_set)
  then have "[s \<leftarrow> sort_and_dedupe cf ?xs. sponsor_identity s = sponsor_identity ?w] = [?w]"
    using sort_and_dedupe_distinct [of cf ?xs] by (rule filter_unique [rotated])
  then show ?thesis
    by (simp add: tier_sponsors_def merge_sponsors_def w(3))
qed

text \<open>
  C6: in the output of \<^verbatim>\<open>sort_and_dedupe\<close> no two records share an identity
  \<open>(platform, key)\<close>, every identity of the input is kept, and the records of the output
  are exactly the records of the input that are the last with their identity. In \<^verbatim>\<open>main\<close>
  the Liberapay records stand before the GitHub records, so for every GitHub record the
  one record of its tier list with its identity is the last GitHub record with that
  identity, whatever the Liberapay list holds.
\<close>

theorem sort_and_dedupe_last_wins:
  "distinct (map sponsor_identity (sort_and_dedupe cf xs))
   \<and> sponsor_identity ` set (sort_and_dedupe cf xs) = sponsor_identity ` set xs
   \<and> set (sort_and_dedupe cf xs)
       = {s \<in> set xs. last [t \<leftarrow> xs. sponsor_identity t = sponsor_identity s] = s}
   \<and> (\<forall>g \<in> set gh.
         [s \<leftarrow> tier_sponsors cf (tier g) (merge_sponsors gh (Some lib)).
            sponsor_identity s = sponsor_identity g]
         = [last [t \<leftarrow> gh. tier t = tier g \<and> sponsor_identity t = sponsor_identity g]])"
  using sort_and_dedupe_distinct [of cf xs] sort_and_dedupe_identities [of cf xs]
    sort_and_dedupe_set [of cf xs] github_overwrites [of _ gh _ cf lib]
  by blast

theorem sort_and_dedupe_last_wins_witness:
  "example_sponsor ''github'' ''eve'' ''Eve'' 2 ''regular''
     \<in> set [example_sponsor ''github'' ''eve'' ''Eva'' 1 ''regular'',
            example_sponsor ''github'' ''eve'' ''Eve'' 2 ''regular'']
   \<and> [s \<leftarrow> tier_sponsors ascii_casefold ''regular''
             (merge_sponsors
                [example_sponsor ''github'' ''eve'' ''Eva'' 1 ''regular'',
                 example_sponsor ''github'' ''eve'' ''Eve'' 2 ''regular'']
                (Some [example_sponsor ''github'' ''eve'' ''E.'' 3 ''regular''])).
         sponsor_identity s = (''github'', ''eve'')]
       = [example_sponsor ''github'' ''eve'' ''Eve'' 2 ''regular'']"
proof -
  let ?g1 = "example_sponsor ''github'' ''eve'' ''Eva'' 1 ''regular''"
  let ?g2 = "example_sponsor ''github'' ''eve'' ''Eve'' 2 ''regular''"
  let ?l = "example_sponsor ''github'' ''eve'' ''E.'' 3 ''regular''"
  have m: "?g2 \<in> set [?g1, ?g2]" by simp
  have i: "sponsor_identity ?g1 = (''github'', ''eve'')" "sponsor_identity ?g2 = (''github'', ''eve'')"
    "tier ?g1 = ''regular''" "tier ?g2 = ''regular''"
    by (simp_all add: sponsor_identity_def example_sponsor_def)
  from sort_and_dedupe_last_wins [of ascii_casefold "[]" "[?g1, ?g2]" "[?l]"] m
  have "[s \<leftarrow> tier_sponsors ascii_casefold (tier ?g2) (merge_sponsors [?g1, ?g2] (Some [?l])).
          sponsor_identity s = sponsor_identity ?g2]
        = [last [t \<leftarrow> [?g1, ?g2]. tier t = tier ?g2 \<and> sponsor_identity t = sponsor_identity ?g2]]"
    by blast
  then show ?thesis
    using m by (simp add: i)
qed

lemma sort_and_dedupe_strict:
  "sorted_wrt (<) (map (sponsor_sort_key cf) (sort_and_dedupe cf xs))"
proof -
  have "distinct (map (\<lambda>s. (\<lambda>(d, n, p, k). (p, k)) (sponsor_sort_key cf s)) (sort_and_dedupe cf xs))"
    using sort_and_dedupe_distinct [of cf xs]
    by (simp add: sponsor_sort_key_def sponsor_identity_def [abs_def])
  then have "distinct (map (sponsor_sort_key cf) (sort_and_dedupe cf xs))"
    by (rule distinct_map_comp)
  moreover have "sorted (map (sponsor_sort_key cf) (sort_and_dedupe cf xs))"
    by (simp add: sort_and_dedupe_def)
  ultimately show ?thesis
    by (simp add: strict_sorted_iff)
qed

lemma sort_and_dedupe_tie_break:
  assumes "s \<in> set (sort_and_dedupe cf xs)" "t \<in> set (sort_and_dedupe cf xs)" "s \<noteq> t"
    and "started_at s = started_at t" "cf (name s) = cf (name t)"
  shows "(platform s, key s) \<noteq> (platform t, key t)
       \<and> (sponsor_sort_key cf s < sponsor_sort_key cf t \<longleftrightarrow> (platform s, key s) < (platform t, key t))"
proof -
  have "sponsor_identity s \<noteq> sponsor_identity t"
    using sort_and_dedupe_distinct [of cf xs] assms(1-3)
    by (meson distinct_map inj_onD)
  then show ?thesis
    using assms(4,5) by (auto simp: sponsor_sort_key_def sponsor_identity_def less_prod_def)
qed

text \<open>
  C7: the output of \<^verbatim>\<open>sort_and_dedupe\<close> is sorted by the key (started_at, case-folded
  name, platform, key), and strictly so: no two neighbours have equal keys. Two distinct
  sponsors of the output that agree on started_at and on the case-folded name differ in
  (platform, key), and their keys compare as their (platform, key) pairs do.
\<close>

theorem sort_and_dedupe_strict_order:
  "sorted (map (sponsor_sort_key cf) (sort_and_dedupe cf xs))
   \<and> sorted_wrt (<) (map (sponsor_sort_key cf) (sort_and_dedupe cf xs))
   \<and> (\<forall>s \<in> set (sort_and_dedupe cf xs). \<forall>t \<in> set (sort_and_dedupe cf xs).
         s \<noteq> t \<and> started_at s = started_at t \<and> cf (name s) = cf (name t)
         \<longrightarrow> (platform s, key s) \<noteq> (platform t, key t)
             \<and> (sponsor_sort_key cf s < sponsor_sort_key cf t
                  \<longleftrightarrow> (platform s, key s) < (platform t, key t)))"
  using sort_and_dedupe_strict [of cf xs] sort_and_dedupe_tie_break [of _ cf xs]
  by (simp add: sort_and_dedupe_def)

theorem sort_and_dedupe_strict_order_witness:
  "example_sponsor ''github'' ''eve'' ''EVE'' 1 ''regular''
     \<in> set (sort_and_dedupe ascii_casefold
        [example_sponsor ''liberapay'' ''eve'' ''Eve'' 1 ''regular'',
         example_sponsor ''github'' ''eve'' ''EVE'' 1 ''regular''])
   \<and> example_sponsor ''liberapay'' ''eve'' ''Eve'' 1 ''regular''
     \<in> set (sort_and_dedupe ascii_casefold
        [example_sponsor ''liberapay'' ''eve'' ''Eve'' 1 ''regular'',
         example_sponsor ''github'' ''eve'' ''EVE'' 1 ''regular''])
   \<and> example_sponsor ''github'' ''eve'' ''EVE'' 1 ''regular''
       \<noteq> example_sponsor ''liberapay'' ''eve'' ''Eve'' 1 ''regular''
   \<and> started_at (example_sponsor ''github'' ''eve'' ''EVE'' 1 ''regular'')
       = started_at (example_sponsor ''liberapay'' ''eve'' ''Eve'' 1 ''regular'')
   \<and> ascii_casefold (name (example_sponsor ''github'' ''eve'' ''EVE'' 1 ''regular''))
       = ascii_casefold (name (example_sponsor ''liberapay'' ''eve'' ''Eve'' 1 ''regular''))
   \<and> sponsor_sort_key ascii_casefold (example_sponsor ''github'' ''eve'' ''EVE'' 1 ''regular'')
       < sponsor_sort_key ascii_casefold (example_sponsor ''liberapay'' ''eve'' ''Eve'' 1 ''regular'')"
proof -
  let ?l = "example_sponsor ''liberapay'' ''eve'' ''Eve'' 1 ''regular''"
  let ?g = "example_sponsor ''github'' ''eve'' ''EVE'' 1 ''regular''"
  have c: "ascii_casefold ''EVE'' = ''eve''" "ascii_casefold ''Eve'' = ''eve''"
    by code_simp+
  have out: "sort_and_dedupe ascii_casefold [?l, ?g] = [?g, ?l]"
    by (simp add: sort_and_dedupe_def unique_of_def sponsor_identity_def example_sponsor_def
        sponsor_sort_key_def datetime_fields_def c)
  have h: "?g \<in> set (sort_and_dedupe ascii_casefold [?l, ?g])"
    "?l \<in> set (sort_and_dedupe ascii_casefold [?l, ?g])"
    "?g \<noteq> ?l" "started_at ?g = started_at ?l"
    "ascii_casefold (name ?g) = ascii_casefold (name ?l)"
    "(platform ?g, key ?g) < (platform ?l, key ?l)"
    by (simp_all add: out) (simp_all add: example_sponsor_def c)
  from sort_and_dedupe_strict_order [of ascii_casefold "[?l, ?g]"] h
  have "sponsor_sort_key ascii_casefold ?g < sponsor_sort_key ascii_casefold ?l"
    by blast
  with h show ?thesis by blast
qed

section \<open>Replacing a marker region\<close>

lemmas template_eval = parse_template_def backslash_def cons_items_def isdigit_def isoctdigit_def
  digit_val_def simple_escape_def is_ascii_letter_def group_ref_def expand_template_def

lemmas replace_marker_eval = replace_marker_def subn_first_def sentinel_def match_at_def
  startswith_def template_eval

lemma tokenize_plain: "backslash \<notin> set s \<Longrightarrow> tokenize s = map Ch s"
  by (induction s rule: tokenize.induct) auto

lemma parse_tokens_plain: "parse_tokens (map Ch s) = Inr (map TChar s)"
  by (induction s) (auto simp: cons_items_def hd_map)

lemma expand_plain: "expand_template (map TChar s) m = s"
  by (induction s) (auto simp: expand_template_def)

text \<open>
  What \<^verbatim>\<open>replace_marker\<close> does when neither the marker nor the replacement holds a
  backslash: without a region it raises the error that names the marker, otherwise it
  rewrites the first region and leaves the text before and after it as it is, whether or
  not further regions follow.
\<close>

lemma replace_marker_plain:
  assumes "backslash \<notin> set marker" "backslash \<notin> set replacement"
  shows "replace_marker content marker replacement =
     (case search_region (sentinel marker) content of
        None \<Rightarrow> Inl (RuntimeError (''README marker '' @ [CHR 0x27] @ marker @ [CHR 0x27]
                                    @ '' was not found exactly once.''))
      | Some (i, j) \<Rightarrow>
          Inr (take i content @ sentinel marker @ replacement @ sentinel marker @ drop j content))"
proof -
  have "backslash \<notin> set (sentinel marker @ replacement @ sentinel marker)"
    using assms by (simp add: sentinel_def backslash_def)
  then have "tokenize (sentinel marker @ replacement @ sentinel marker)
               = map Ch (sentinel marker @ replacement @ sentinel marker)"
    by (rule tokenize_plain)
  then have "parse_template (sentinel marker @ replacement @ sentinel marker)
               = Inr (map TChar (sentinel marker @ replacement @ sentinel marker))"
    by (simp only: parse_template_def parse_tokens_plain)
  then show ?thesis
    by (simp add: replace_marker_def subn_first_def expand_plain del: map_append split: option.splits)
qed

text \<open>
  C1, at a document with two regions for the marker: \<^verbatim>\<open>subn\<close> is called with
  \<^verbatim>\<open>count=1\<close>, so it reports one replacement, the test \<^verbatim>\<open>count != 1\<close> does not fire, and
  \<^verbatim>\<open>replace_marker\<close> returns the document with the first region rewritten instead of
  raising the error "was not found exactly once".
\<close>

theorem replace_marker_two_regions:
  "replace_marker ''<!-- sponsors -->a<!-- sponsors -->b<!-- sponsors -->c<!-- sponsors -->''
       ''sponsors'' ''X''
     = Inr ''<!-- sponsors -->X<!-- sponsors -->b<!-- sponsors -->c<!-- sponsors -->''"
  by (simp add: replace_marker_eval)

text \<open>
  C10: the replacement is read as a substitution template. HTML escaping keeps a
  backslash, so a sponsor name \<^verbatim>\<open>C:\1\<close> reaches the template and the rewrite of the README
  stops with \<^verbatim>\<open>re.error\<close> (an invalid group reference) instead of the marker error; an
  escaped name \<^verbatim>\<open>C:\n\<close> is written with a line feed in place of the two characters
  \<^verbatim>\<open>\n\<close>, so the region is not sentinel, replacement, sentinel; and \<^verbatim>\<open>\g<0>\<close> puts
  the whole old region into the new one.
\<close>

theorem replacement_is_a_template:
  "html_escape [backslash, CHR ''1''] True = [backslash, CHR ''1'']
   \<and> update_readme cf [example_sponsor ''github'' ''eve'' [CHR ''C'', CHR '':'', backslash, CHR ''1''] 1 ''regular'']
        ''<!-- sponsors-highlighted --><!-- sponsors-highlighted --><!-- sponsors -->old<!-- sponsors -->''
       = Inl ReError
   \<and> replace_marker ''<!-- m -->old<!-- m -->'' ''m'' (html_escape [CHR ''C'', CHR '':'', backslash, CHR ''n''] True)
       = Inr (''<!-- m -->C:'' @ [CHR 0x0A] @ ''<!-- m -->'')
   \<and> replace_marker ''<!-- m -->old<!-- m -->'' ''m'' (html_escape [CHR ''C'', CHR '':'', backslash, CHR ''n''] True)
       \<noteq> Inr (''<!-- m -->'' @ html_escape [CHR ''C'', CHR '':'', backslash, CHR ''n''] True @ ''<!-- m -->'')
   \<and> replace_marker ''x<!-- m -->a<!-- m -->b'' ''m'' [backslash, CHR ''g'', CHR ''<'', CHR ''0'', CHR ''>'']
       = Inr ''x<!-- m --><!-- m -->a<!-- m --><!-- m -->b''"
  by (simp add: update_readme_def tier_sponsors_def sort_and_dedupe_def unique_of_def
      example_sponsor_def render_all_def render_sponsor_def html_escape_def escape_char_def
      HIGHLIGHTED_WIDTH_def REGULAR_WIDTH_def sponsor_identity_def replace_marker_eval)

section \<open>Parsing of amounts and timestamps\<close>

text \<open>
  \<^verbatim>\<open>parse_decimal\<close> never raises, and so does \<^verbatim>\<open>parse_started_at\<close> with \<open>date_only\<close>;
  blank text gives \<^verbatim>\<open>None\<close>.
\<close>

lemma Decimal_raises_only: "Decimal v = Inl e \<Longrightarrow> e = InvalidOperation"
  by (auto simp: Decimal_def split: prod.splits option.splits)

lemma parse_decimal_total: "\<exists>r. parse_decimal v = Inr r"
proof (cases "Decimal (strip (py_str v))")
  case (Inl e)
  then have "e = InvalidOperation" by (rule Decimal_raises_only)
  with Inl show ?thesis
    by (cases v) (simp_all add: parse_decimal_def Let_def)
next
  case (Inr d)
  then show ?thesis
    by (cases v) (simp_all add: parse_decimal_def Let_def)
qed

lemma strip_blank: "list_all isspace s \<Longrightarrow> strip s = []"
proof -
  assume "list_all isspace s"
  then have d: "dropWhile isspace s = []" by (induction s) auto
  show ?thesis unfolding strip_def d by simp
qed

lemma parse_decimal_blank: "list_all isspace text \<Longrightarrow> parse_decimal (JStr text) = Inr None"
  by (simp add: parse_decimal_def strip_blank)

lemma fromisoformat_raises_only: "fromisoformat s = Inl e \<Longrightarrow> e = ValueError"
  by (auto simp: fromisoformat_def Let_def split: if_splits option.splits prod.splits)

lemma parse_started_at_date_only_total: "\<exists>r. parse_started_at l v True = Inr r"
proof (cases "fromisoformat (strip v @ ''T00:00:00+00:00'')")
  case (Inl e)
  then have "e = ValueError" by (rule fromisoformat_raises_only)
  with Inl show ?thesis by (simp add: parse_started_at_def Let_def)
next
  case (Inr r)
  then show ?thesis by (cases r) (simp add: parse_started_at_def Let_def)
qed

lemma parse_started_at_blank: "list_all isspace text \<Longrightarrow> parse_started_at l text b = Inr None"
  by (simp add: parse_started_at_def strip_blank)

text \<open>
  With \<open>date_only\<close> the \<^verbatim>\<open>datetime\<close> that is returned has the offset zero: its
  \<^verbatim>\<open>tzinfo\<close> is \<^verbatim>\<open>timezone.utc\<close>.
\<close>

lemma match_fmt_no_T:
  "match_fmt f x \<Longrightarrow> CHR ''T'' \<notin> set f \<Longrightarrow> CHR ''T'' \<notin> set x"
  unfolding match_fmt_def
  by (induction f x rule: list_all2_induct) (auto simp: isdigit_def split: if_splits)

lemma parse_hh_mm_ss_ff_no_T:
  assumes "parse_hh_mm_ss_ff fmts x = Some r" "\<forall>f \<in> set fmts. CHR ''T'' \<notin> set f"
  shows "CHR ''T'' \<notin> set x"
  using assms match_fmt_no_T
  by (auto simp: parse_hh_mm_ss_ff_def list_ex_iff split: if_splits)

lemma parse_isoformat_time_no_T:
  assumes "parse_isoformat_time tstr = Some r"
  shows "CHR ''T'' \<notin> set tstr"
proof -
  let ?ts = "takeWhile (\<lambda>c. \<not> is_sign c) tstr" and ?rest = "dropWhile (\<lambda>c. \<not> is_sign c) tstr"
  from assms obtain tm where tm: "parse_hh_mm_ss_ff time_formats ?ts = Some tm"
    by (auto simp: parse_isoformat_time_def Let_def split: option.splits)
  then have 1: "CHR ''T'' \<notin> set ?ts"
    by (rule parse_hh_mm_ss_ff_no_T) (simp add: time_formats_def)
  have 2: "CHR ''T'' \<notin> set ?rest"
  proof (cases ?rest)
    case Nil
    show ?thesis unfolding Nil by simp
  next
    case (Cons sg tzstr)
    then have "is_sign sg" by (metis hd_dropWhile list.sel(1) list.distinct(1))
    moreover from assms tm Cons obtain tz where "parse_hh_mm_ss_ff offset_formats tzstr = Some tz"
      by (auto simp: parse_isoformat_time_def Let_def split: option.splits)
    then have "CHR ''T'' \<notin> set tzstr"
      by (rule parse_hh_mm_ss_ff_no_T) (simp add: offset_formats_def)
    ultimately show ?thesis using Cons by (auto simp: is_sign_def)
  qed
  have "set tstr = set ?ts \<union> set ?rest"
    by (metis set_append takeWhile_dropWhile_id)
  with 1 2 show ?thesis by simp
qed

lemma date_only_is_utc:
  assumes "fromisoformat (t @ ''T00:00:00+00:00'') = Inr (d, off)"
  shows "off = Some 0"
proof -
  let ?w = "t @ ''T00:00:00+00:00''"
  from assms have m: "match_fmt ''dddd-dd-dd'' (take 10 ?w)"
    by (auto simp: fromisoformat_def Let_def split: if_splits)
  then have noT: "CHR ''T'' \<notin> set (take 10 ?w)"
    by (rule match_fmt_no_T) simp
  have l1: "10 \<le> length t"
  proof (rule ccontr)
    assume "\<not> 10 \<le> length t"
    then obtain k where k: "10 - length t = Suc k" by (cases "10 - length t") auto
    have "CHR ''T'' \<in> set (take (10 - length t) ''T00:00:00+00:00'')"
      unfolding k by simp
    with noT show False by simp
  qed
  from assms obtain tm where p: "parse_isoformat_time (drop 11 ?w) = Some (tm, off)"
    by (auto simp: fromisoformat_def Let_def split: if_splits option.splits prod.splits)
  then have noT2: "CHR ''T'' \<notin> set (drop 11 ?w)"
    by (rule parse_isoformat_time_no_T)
  have l2: "length t \<le> 10"
  proof (rule ccontr)
    assume "\<not> length t \<le> 10"
    then have "drop 11 ?w = drop 11 t @ ''T00:00:00+00:00''" by simp
    with noT2 show False by simp
  qed
  from l1 l2 have "drop 11 ?w = ''00:00:00+00:00''" by simp
  with p have "parse_isoformat_time ''00:00:00+00:00'' = Some (tm, off)" by simp
  then show ?thesis
    by (simp add: parse_isoformat_time_def is_sign_def parse_hh_mm_ss_ff_def time_formats_def
        offset_formats_def match_fmt_def isdigit_def field_def digits_val_def digit_val_def)
qed

text \<open>
  C2, at a well-formed timestamp in the first hour of year 1 with the offset +01:00:
  \<^verbatim>\<open>fromisoformat\<close> accepts it, \<^verbatim>\<open>astimezone(timezone.utc)\<close> would have to go back to
  the year before year 1 and raises OverflowError, which is not a ValueError and leaves
  \<^verbatim>\<open>parse_started_at\<close>, whatever the local time zone is.
\<close>

theorem parse_started_at_overflow:
  "parse_started_at local_utcoffset ''0001-01-01T00:00:00+01:00'' False = Inl OverflowError"
  by (simp add: parse_started_at_def strip_def isspace_def replace_char_def fromisoformat_def
      match_fmt_def isdigit_def parse_isoformat_time_def is_sign_def parse_hh_mm_ss_ff_def
      time_formats_def offset_formats_def field_def digits_val_def digit_val_def
      check_date_fields_def check_time_fields_def days_in_month_def is_leap_def
      astimezone_utc_def to_microseconds_def of_microseconds_def ymd2ord_def
      days_before_year_def days_before_month_def MAXORDINAL_def)

end
